theory Spec2Isabelle
  imports Complex_Main
begin

section \<open>The menu page: cart handling and order placement\<close>

text \<open>
  The embedding follows \<^verbatim>\<open>Frontend/src/pages/Menu.jsx\<close>. The component keeps its data in
  React state hooks; every handler reads the state captured at render time and calls the
  setters, so a handler is a function from the state before the event to the state after it.
  Besides the hooks, the state record below holds what the handlers touch outside the
  component: the authentication flag of the auth context, the browser's local storage, the
  router's current location (set by \<^verbatim>\<open>navigate\<close>), the notifications shown, and the log
  of requests sent to the remote API. Which page the application shows at a location is
  decided by the route table of \<^verbatim>\<open>App\<close>, modelled further down.

  Numbers: a quantity starts at 1 and is only ever changed by one (the two buttons of a cart
  line call \<^verbatim>\<open>updateQuantity\<close> with \<^verbatim>\<open>item.quantity - 1\<close> and \<^verbatim>\<open>item.quantity + 1\<close>),
  so it is an \<^typ>\<open>int\<close>; a price is a JavaScript number read from the API, and the total
  is computed from the prices in double-precision arithmetic, with its rounding.
\<close>

subsection \<open>Numbers\<close>

text \<open>A JavaScript number is an IEEE 754 double-precision value: \<open>Finite x\<close> is the double
  whose value is the real number \<open>x\<close>, and \<open>PosInf\<close>, \<open>NegInf\<close> and \<open>NaN\<close> are
  \<^verbatim>\<open>Infinity\<close>, \<^verbatim>\<open>-Infinity\<close> and \<^verbatim>\<open>NaN\<close>. The two zeros are not told apart; they are
  equal as numbers and behave alike in the sums and products below.\<close>

datatype double = Finite real | PosInf | NegInf | NaN

text \<open>Rounding a real number to the nearest integer, a tie going to the even one.\<close>

definition round_half_even :: "real \<Rightarrow> int" where
  "round_half_even r =
     (let f = \<lfloor>r\<rfloor>; d = r - of_int f
      in if d < 1 / 2 then f
         else if 1 / 2 < d then f + 1
         else if even f then f else f + 1)"

text \<open>The binary exponent of a positive real \<open>x\<close>, the \<open>e\<close> with \<open>2 powi e \<le> x < 2 powi (e + 1)\<close>,
  found by halving or doubling at most \<open>n\<close> times; beyond that range the result stays at
  \<open>n\<close> or \<open>- n\<close>.\<close>

fun binade :: "nat \<Rightarrow> real \<Rightarrow> int" where
  "binade 0 x = 0"
| "binade (Suc n) x =
     (if 2 \<le> x then binade n (x / 2) + 1
      else if x < 1 then binade n (2 * x) - 1
      else 0)"

text \<open>The result of an arithmetic operation is its exact value rounded to the nearest double,
  ties to the even significand: a double has 53 significant bits, so in the binade of
  exponent \<open>e\<close> the doubles are the multiples of \<open>2 powi (e - 52)\<close>; below the smallest
  normal exponent \<open>- 1022\<close> the spacing stays that of the subnormal numbers; and a result
  that rounds to \<open>2 ^ 1024\<close> or beyond in magnitude is an infinity. The bound 1100 on the
  search for the exponent is past both ends of that range, where the exponent no longer
  matters.\<close>

definition round_double :: "real \<Rightarrow> double" where
  "round_double x =
     (if x = 0 then Finite 0
      else
        (let e = max (binade 1100 \<bar>x\<bar>) (- 1022);
             q = 2 powi (e - 52);
             y = of_int (round_half_even (x / q)) * q
         in if 2 ^ 1024 \<le> y then PosInf
            else if y \<le> - (2 ^ 1024) then NegInf
            else Finite y))"

text \<open>The operators \<^verbatim>\<open>+\<close> and \<^verbatim>\<open>*\<close> on numbers.\<close>

fun dadd :: "double \<Rightarrow> double \<Rightarrow> double" where
  "dadd (Finite x) (Finite y) = round_double (x + y)"
| "dadd NaN b = NaN"
| "dadd a NaN = NaN"
| "dadd PosInf NegInf = NaN"
| "dadd NegInf PosInf = NaN"
| "dadd PosInf b = PosInf"
| "dadd a PosInf = PosInf"
| "dadd NegInf b = NegInf"
| "dadd a NegInf = NegInf"

fun dmul :: "double \<Rightarrow> double \<Rightarrow> double" where
  "dmul (Finite x) (Finite y) = round_double (x * y)"
| "dmul NaN b = NaN"
| "dmul a NaN = NaN"
| "dmul (Finite x) PosInf = (if x = 0 then NaN else if 0 < x then PosInf else NegInf)"
| "dmul (Finite x) NegInf = (if x = 0 then NaN else if 0 < x then NegInf else PosInf)"
| "dmul PosInf (Finite y) = (if y = 0 then NaN else if 0 < y then PosInf else NegInf)"
| "dmul NegInf (Finite y) = (if y = 0 then NaN else if 0 < y then NegInf else PosInf)"
| "dmul PosInf PosInf = PosInf"
| "dmul PosInf NegInf = NegInf"
| "dmul NegInf PosInf = NegInf"
| "dmul NegInf NegInf = PosInf"

text \<open>The number a quantity stands for.\<close>

definition number_of :: "int \<Rightarrow> double" where
  "number_of q = round_double (of_int q)"

subsection \<open>Data\<close>

text \<open>A menu item as \<^verbatim>\<open>GET /menu\<close> delivers it; \<open>item_id\<close> is the field \<^verbatim>\<open>_id\<close> and
  \<open>image_src\<close> the field \<^verbatim>\<open>image\<close>.\<close>

record menu_item =
  item_id :: string
  name :: string
  description :: string
  price :: double
  category :: string
  ingredients :: "string list"
  image_src :: "string option"

text \<open>A cart line is a menu item spread into a new object with three more fields.\<close>

record cart_line = menu_item +
  quantity :: int
  removedIngredients :: "string list"
  specialRequest :: string

text \<open>The object literal \<^verbatim>\<open>{ ...item, quantity: q, removedIngredients: r, specialRequest: t }\<close>.\<close>

definition spread :: "menu_item \<Rightarrow> int \<Rightarrow> string list \<Rightarrow> string \<Rightarrow> cart_line" where
  "spread item q r t =
     \<lparr> item_id = item_id item, name = name item, description = description item,
       price = price item, category = category item, ingredients = ingredients item,
       image_src = image_src item,
       quantity = q, removedIngredients = r, specialRequest = t \<rparr>"

text \<open>Notifications of \<^verbatim>\<open>react-hot-toast\<close>. \<open>Toast_unavailable\<close> is the error notification of
  the 400 branch that shows the server's message together with the button
  ``Remove unavailable items''; the button's handler runs only when the user clicks it later.\<close>

datatype toast = Toast_success string | Toast_error string | Toast_unavailable string

text \<open>One element of \<^verbatim>\<open>orderData.items\<close>: \<^verbatim>\<open>menuItem\<close>, \<^verbatim>\<open>quantity\<close>, \<^verbatim>\<open>price\<close>,
  \<^verbatim>\<open>removedIngredients\<close>, \<^verbatim>\<open>specialRequest\<close>; and \<^verbatim>\<open>orderData\<close> itself: \<^verbatim>\<open>items\<close> and
  \<^verbatim>\<open>totalAmount\<close>.\<close>

datatype order_item = Order_item string int double "string list" string

datatype order_data = Order_data "order_item list" double

text \<open>A request sent through \<^verbatim>\<open>api\<close>: \<^verbatim>\<open>api.post("/orders", orderData, ...)\<close> with the value
  of its \<^verbatim>\<open>Authorization\<close> header, or \<^verbatim>\<open>api.get("/menu")\<close>.\<close>

datatype request = Post_orders order_data string | Get_menu

record state =
  menuItems :: "menu_item list"
  cart :: "cart_line list"
  isPlacingOrder :: bool
  customizingItem :: "menu_item option"
  specialRequest_input :: string
  removedIngredients_input :: "string list"
  isAuthenticated :: bool
  localStorage :: "string \<rightharpoonup> string"
  location :: string
  toasts :: "toast list"
  requests :: "request list"

text \<open>What the remote API answers. The response body of \<^verbatim>\<open>POST /orders\<close> is an object
  \<^verbatim>\<open>{success, orderId, message}\<close> whose \<^verbatim>\<open>message\<close> may be missing. A rejected request
  carries either \<^verbatim>\<open>error.response\<close> with its \<^verbatim>\<open>status\<close> and the \<^verbatim>\<open>message\<close> of its body,
  or no response and only \<^verbatim>\<open>error.message\<close>.\<close>

datatype error = Http_error int "string option" | Plain_error string

datatype post_result = Resolved bool string "string option" | Rejected error

datatype get_result = Get_ok "menu_item list" | Get_failed

text \<open>How an \<^verbatim>\<open>async\<close> handler ends: it returns, or an exception leaves it.\<close>

datatype completion = Returned | Threw

subsection \<open>JavaScript helpers\<close>

text \<open>\<^verbatim>\<open>Array.prototype.find\<close> and \<^verbatim>\<open>findIndex\<close>: the first element, or the first index,
  that satisfies the predicate; \<open>None\<close> stands for \<^verbatim>\<open>undefined\<close> and for \<^verbatim>\<open>-1\<close>.\<close>

fun findIndex_from :: "('a \<Rightarrow> bool) \<Rightarrow> nat \<Rightarrow> 'a list \<Rightarrow> nat option" where
  "findIndex_from p k [] = None"
| "findIndex_from p k (x # xs) = (if p x then Some k else findIndex_from p (Suc k) xs)"

definition findIndex :: "('a \<Rightarrow> bool) \<Rightarrow> 'a list \<Rightarrow> nat option" where
  "findIndex p xs = findIndex_from p 0 xs"

text \<open>\<^verbatim>\<open>xs.map((x, index) => f(x, index))\<close>.\<close>

definition map_index :: "('a \<Rightarrow> nat \<Rightarrow> 'b) \<Rightarrow> 'a list \<Rightarrow> 'b list" where
  "map_index f xs = map (\<lambda>(x, i). f x i) (zip xs [0 ..< length xs])"

text \<open>\<^verbatim>\<open>m || d\<close> on a string that may be \<^verbatim>\<open>undefined\<close>: the empty string is falsy too.\<close>

fun or_default :: "string option \<Rightarrow> string \<Rightarrow> string" where
  "or_default None d = d"
| "or_default (Some m) d = (if m = [] then d else m)"

text \<open>\<^verbatim>\<open>s.includes(p)\<close>: \<open>p\<close> occurs in \<open>s\<close> as a contiguous piece.\<close>

fun starts_with :: "string \<Rightarrow> string \<Rightarrow> bool" where
  "starts_with s [] = True"
| "starts_with [] (p # ps) = False"
| "starts_with (c # cs) (p # ps) = (c = p \<and> starts_with cs ps)"

fun includes_str :: "string \<Rightarrow> string \<Rightarrow> bool" where
  "includes_str [] p = (p = [])"
| "includes_str (c # cs) p = (starts_with (c # cs) p \<or> includes_str cs p)"

subsection \<open>Cart handlers\<close>

definition addToCart :: "menu_item \<Rightarrow> state \<Rightarrow> state" where
  "addToCart item s =
     (let existingItem = find (\<lambda>cartItem. item_id cartItem = item_id item) (cart s);
          s' = (case existingItem of
                  Some _ \<Rightarrow>
                    s\<lparr>cart := map (\<lambda>cartItem.
                                 if item_id cartItem = item_id item
                                 then cartItem\<lparr>quantity := quantity cartItem + 1\<rparr>
                                 else cartItem) (cart s)\<rparr>
                | None \<Rightarrow> s\<lparr>cart := cart s @ [spread item 1 [] '''']\<rparr>)
      in s'\<lparr>toasts := toasts s' @ [Toast_success (''Added '' @ name item @ '' to cart'')]\<rparr>)"

definition addCustomizedToCart :: "state \<Rightarrow> state" where
  "addCustomizedToCart s =
     (case customizingItem s of
        None \<Rightarrow> s
      | Some citem \<Rightarrow>
          (let customizedItem =
                 spread citem 1 (removedIngredients_input s) (specialRequest_input s);
               existingIndex =
                 findIndex (\<lambda>item. item_id item = item_id customizedItem) (cart s);
               s' = (case existingIndex of
                       Some k \<Rightarrow>
                         s\<lparr>cart := map_index (\<lambda>item index.
                                      if index = k then customizedItem else item) (cart s)\<rparr>
                     | None \<Rightarrow> s\<lparr>cart := cart s @ [customizedItem]\<rparr>)
           in s'\<lparr>customizingItem := None,
                 removedIngredients_input := [],
                 specialRequest_input := '''',
                 toasts := toasts s' @
                   [Toast_success (''Added customized '' @ name citem @ '' to cart'')]\<rparr>))"

definition removeFromCart :: "string \<Rightarrow> state \<Rightarrow> state" where
  "removeFromCart itemId s = s\<lparr>cart := filter (\<lambda>item. item_id item \<noteq> itemId) (cart s)\<rparr>"

definition updateQuantity :: "string \<Rightarrow> int \<Rightarrow> state \<Rightarrow> state" where
  "updateQuantity itemId newQuantity s =
     (if newQuantity < 1 then s
      else s\<lparr>cart := map (\<lambda>item.
                         if item_id item = itemId then item\<lparr>quantity := newQuantity\<rparr>
                         else item) (cart s)\<rparr>)"

definition calculateTotal :: "state \<Rightarrow> double" where
  "calculateTotal s =
     foldl (\<lambda>total item. dadd total (dmul (price item) (number_of (quantity item))))
       (Finite 0) (cart s)"

subsection \<open>Totals without rounding\<close>

text \<open>A real number is representable when rounding leaves it as it is. The lines of a cart
  add up exactly from the running sum \<open>a\<close> when every price is finite and every quantity,
  every product of price and quantity, and every running sum is representable;
  \<open>finite_value\<close> reads the real value of a finite number.\<close>

definition representable :: "real \<Rightarrow> bool" where
  "representable x = (round_double x = Finite x)"

fun finite_value :: "double \<Rightarrow> real" where
  "finite_value (Finite x) = x"
| "finite_value PosInf = 0"
| "finite_value NegInf = 0"
| "finite_value NaN = 0"

fun exact_from :: "real \<Rightarrow> cart_line list \<Rightarrow> bool" where
  "exact_from a [] = True"
| "exact_from a (l # ls) =
     (case price l of
        Finite p \<Rightarrow>
          representable (of_int (quantity l)) \<and>
          representable (p * of_int (quantity l)) \<and>
          representable (a + p * of_int (quantity l)) \<and>
          exact_from (a + p * of_int (quantity l)) ls
      | PosInf \<Rightarrow> False
      | NegInf \<Rightarrow> False
      | NaN \<Rightarrow> False)"

subsection \<open>Placing an order\<close>

text \<open>The body of \<^verbatim>\<open>try\<close>: build \<^verbatim>\<open>orderData\<close>, read the token, send the request, and
  act on a resolved response. The result is the exception thrown inside the block, if any
  (a rejected request, or the \<^verbatim>\<open>Error\<close> thrown for an unsuccessful response), with the
  state reached.\<close>

definition orderData :: "state \<Rightarrow> order_data" where
  "orderData s =
     Order_data
       (map (\<lambda>item. Order_item (item_id item) (quantity item) (price item)
                       (removedIngredients item)
                       (or_default (Some (specialRequest item)) ''''))
            (cart s))
       (calculateTotal s)"

definition try_block :: "post_result \<Rightarrow> state \<Rightarrow> error option \<times> state" where
  "try_block post_res s =
     (let token = localStorage s ''token'';
          authorization = ''Bearer '' @ (case token of None \<Rightarrow> ''null'' | Some t \<Rightarrow> t);
          s1 = s\<lparr>requests := requests s @ [Post_orders (orderData s) authorization]\<rparr>
      in case post_res of
           Rejected err \<Rightarrow> (Some err, s1)
         | Resolved success orderId message \<Rightarrow>
             if success
             then (None, s1\<lparr>toasts := toasts s1 @ [Toast_success ''Order placed successfully!''],
                            cart := [],
                            location := ''/orders/'' @ orderId\<rparr>)
             else (Some (Plain_error (or_default message ''Failed to place order'')), s1))"

text \<open>The body of \<^verbatim>\<open>catch\<close>. With status 400 and a body without \<^verbatim>\<open>message\<close>, the call
  \<^verbatim>\<open>data.message.includes\<close> throws; with status 404 the menu is fetched again, and a failure
  of that request leaves the handler as an exception.\<close>

definition catch_block :: "error \<Rightarrow> get_result \<Rightarrow> state \<Rightarrow> completion \<times> state" where
  "catch_block err menu_res s =
     (case err of
        Http_error status message \<Rightarrow>
          if status = 400 then
            (case message of
               None \<Rightarrow> (Threw, s)
             | Some m \<Rightarrow>
                 if includes_str m ''unavailable''
                 then (Returned, s\<lparr>toasts := toasts s @ [Toast_unavailable m]\<rparr>)
                 else (Returned,
                       s\<lparr>toasts := toasts s @
                           [Toast_error (or_default (Some m) ''Invalid order data'')]\<rparr>))
          else if status = 401 then
            (Returned,
             s\<lparr>toasts := toasts s @ [Toast_error ''Session expired. Please login again''],
               localStorage := (localStorage s)(''token'' := None),
               location := ''/login''\<rparr>)
          else if status = 404 then
            (let s1 = s\<lparr>toasts := toasts s @
                          [Toast_error ''Menu item not found - please refresh the menu''],
                        requests := requests s @ [Get_menu]\<rparr>
             in case menu_res of
                  Get_ok items \<Rightarrow> (Returned, s1\<lparr>menuItems := items\<rparr>)
                | Get_failed \<Rightarrow> (Threw, s1))
          else
            (Returned,
             s\<lparr>toasts := toasts s @ [Toast_error (or_default message ''Failed to place order'')]\<rparr>)
      | Plain_error m \<Rightarrow>
          (Returned,
           s\<lparr>toasts := toasts s @ [Toast_error (or_default (Some m) ''Failed to place order'')]\<rparr>))"

text \<open>\<open>post_res\<close> is the answer of the API to \<^verbatim>\<open>POST /orders\<close> and \<open>menu_res\<close> its answer to
  \<^verbatim>\<open>GET /menu\<close>, should the handler send these requests; the log \<open>requests\<close> tells which
  ones it sent.\<close>

definition placeOrder :: "post_result \<Rightarrow> get_result \<Rightarrow> state \<Rightarrow> completion \<times> state" where
  "placeOrder post_res menu_res s =
     (if \<not> isAuthenticated s then
        (Returned,
         s\<lparr>toasts := toasts s @ [Toast_error ''Please login to place an order''],
           location := ''/login''\<rparr>)
      else if length (cart s) = 0 then
        (Returned, s\<lparr>toasts := toasts s @ [Toast_error ''Your cart is empty'']\<rparr>)
      else
        (let s1 = s\<lparr>isPlacingOrder := True\<rparr>;
             (thrown, s2) = try_block post_res s1;
             (c, s3) = (case thrown of
                          None \<Rightarrow> (Returned, s2)
                        | Some err \<Rightarrow> catch_block err menu_res s2)
         in (c, s3\<lparr>isPlacingOrder := False\<rparr>)))"

subsection \<open>The application's routes\<close>

text \<open>The pages the application's router can show, and its route table (the \<^verbatim>\<open>Route\<close>
  elements of \<^verbatim>\<open>App\<close>, in their order).\<close>

datatype view = Home | Menu | OrderHistory | FeedbackForm | ChefDashboard | Login | Register

definition routes :: "(string \<times> view) list" where
  "routes =
     [(''/'', Home), (''/menu'', Menu), (''/orders'', OrderHistory),
      (''/feedback/:orderId'', FeedbackForm), (''/chef-dashboard'', ChefDashboard),
      (''/login'', Login), (''/register'', Register)]"

text \<open>How the router (React Router, version 6) matches a location against the path of a
  route without children: the route path, with the slashes at its ends left out, must cover
  the whole location piece by piece, where the location starts with one slash and may end
  with any number of them. A piece \<^verbatim>\<open>:name\<close> of the route path stands for any non-empty
  piece; any other piece is compared without regard to letter case. \<open>match_route\<close> is the
  page shown at a location, \<open>None\<close> when no route matches and nothing is shown. No location
  matches two routes of the table, so the router's ranking of matches plays no role.\<close>

fun split_slash :: "string \<Rightarrow> string list" where
  "split_slash [] = [[]]"
| "split_slash (c # cs) =
     (if c = CHR ''/'' then [] # split_slash cs
      else (case split_slash cs of
              seg # segs \<Rightarrow> (c # seg) # segs
            | [] \<Rightarrow> [[c]]))"

definition strip_trailing :: "string list \<Rightarrow> string list" where
  "strip_trailing segs = rev (dropWhile (\<lambda>seg. seg = []) (rev segs))"

definition pattern_segments :: "string \<Rightarrow> string list" where
  "pattern_segments pattern =
     strip_trailing (dropWhile (\<lambda>seg. seg = []) (split_slash pattern))"

fun location_segments :: "string \<Rightarrow> string list option" where
  "location_segments [] = None"
| "location_segments (c # cs) =
     (if c = CHR ''/'' then Some (strip_trailing (split_slash cs)) else None)"

definition to_lower :: "char \<Rightarrow> char" where
  "to_lower c =
     (if 65 \<le> (of_char c :: nat) \<and> (of_char c :: nat) \<le> 90
      then char_of ((of_char c :: nat) + 32) else c)"

fun segment_matches :: "string \<Rightarrow> string \<Rightarrow> bool" where
  "segment_matches [] seg = (seg = [])"
| "segment_matches (c # cs) seg =
     (if c = CHR '':'' then seg \<noteq> [] else map to_lower (c # cs) = map to_lower seg)"

definition path_matches :: "string \<Rightarrow> string \<Rightarrow> bool" where
  "path_matches pattern path =
     (case location_segments path of
        None \<Rightarrow> False
      | Some segs \<Rightarrow> list_all2 segment_matches (pattern_segments pattern) segs)"

definition match_route :: "string \<Rightarrow> view option" where
  "match_route path = map_option snd (find (\<lambda>(pattern, v). path_matches pattern path) routes)"

subsection \<open>The cart operations as events\<close>

text \<open>Customize-and-add is the click on ``Add to Cart'' in the customization dialog, with the
  dialog open for \<open>item\<close> and its inputs holding the removed ingredients and the request.\<close>

definition customize_and_add :: "menu_item \<Rightarrow> string list \<Rightarrow> string \<Rightarrow> state \<Rightarrow> state" where
  "customize_and_add item removed request s =
     addCustomizedToCart
       (s\<lparr>customizingItem := Some item, removedIngredients_input := removed,
          specialRequest_input := request\<rparr>)"

datatype cart_op =
    Add menu_item
  | Customize_and_add menu_item "string list" string
  | Update_quantity string int
  | Remove string

fun apply_op :: "state \<Rightarrow> cart_op \<Rightarrow> state" where
  "apply_op s (Add item) = addToCart item s"
| "apply_op s (Customize_and_add item removed request) = customize_and_add item removed request s"
| "apply_op s (Update_quantity itemId newQuantity) = updateQuantity itemId newQuantity s"
| "apply_op s (Remove itemId) = removeFromCart itemId s"

text \<open>The state of a freshly mounted component: every hook at its initial value, nothing
  shown or sent yet. The authentication flag and the stored data come from outside.\<close>

definition initial :: "bool \<Rightarrow> (string \<rightharpoonup> string) \<Rightarrow> state" where
  "initial auth storage =
     \<lparr> menuItems = [], cart = [], isPlacingOrder = False, customizingItem = None,
       specialRequest_input = '''', removedIngredients_input = [],
       isAuthenticated = auth, localStorage = storage, location = ''/menu'',
       toasts = [], requests = [] \<rparr>"

subsection \<open>Menu items for the examples\<close>

text \<open>The price of \<open>tea\<close> is the number that \<^verbatim>\<open>0.1\<close> denotes in JSON and in JavaScript:
  the double nearest to one tenth.\<close>

definition burger :: menu_item where
  "burger = \<lparr> item_id = ''m1'', name = ''Burger'', description = ''Beef burger'',
              price = Finite 5, category = ''main'', ingredients = [''bun'', ''onion''],
              image_src = None \<rparr>"

definition fries :: menu_item where
  "fries = \<lparr> item_id = ''m2'', name = ''Fries'', description = ''Salted'',
             price = Finite (5 / 2), category = ''side'', ingredients = [],
             image_src = Some ''fries.png'' \<rparr>"

definition tea :: menu_item where
  "tea = \<lparr> item_id = ''m3'', name = ''Tea'', description = ''Black tea'',
           price = Finite (3602879701896397 / 36028797018963968), category = ''drink'',
           ingredients = [], image_src = None \<rparr>"

section \<open>Properties\<close>

subsection \<open>Helper facts\<close>

lemma find_None_conv: "find p xs = None \<longleftrightarrow> (\<forall>x \<in> set xs. \<not> p x)"
  by (induction xs) auto

lemma binade_numeral:
  "binade (numeral k) x =
     (if 2 \<le> x then binade (pred_numeral k) (x / 2) + 1
      else if x < 1 then binade (pred_numeral k) (2 * x) - 1
      else 0)"
  by (simp add: numeral_eq_Suc)

lemma powi_succ: "(2::real) powi (k + 1) = 2 * 2 powi k"
  by (simp add: power_int_add)

lemma powi_pred: "(2::real) powi (k - 1) = 2 powi k / 2"
  by (simp add: power_int_diff)

lemma binade_bounds:
  "0 < x \<Longrightarrow> 1 / 2 ^ n \<le> x \<Longrightarrow> x < 2 ^ n \<Longrightarrow>
   2 powi (binade n x) \<le> x \<and> x < 2 powi (binade n x + 1)"
proof (induction n arbitrary: x)
  case 0
  then show ?case by simp
next
  case (Suc n)
  show ?case
  proof (cases "2 \<le> x")
    case True
    define b where "b = binade n (x / 2)"
    have "(1::real) / 2 ^ n \<le> 1" by simp
    moreover from True have "1 \<le> x / 2" by simp
    ultimately have "1 / 2 ^ n \<le> x / 2" by (rule order_trans)
    moreover from True Suc.prems have "0 < x / 2" "x / 2 < 2 ^ n"
      by simp_all
    ultimately have "2 powi b \<le> x / 2 \<and> x / 2 < 2 powi (b + 1)"
      unfolding b_def by (intro Suc.IH)
    then have f: "2 powi b \<le> x / 2" "x / 2 < 2 * 2 powi b"
      by (simp_all only: powi_succ)
    have bs: "binade (Suc n) x = b + 1"
      using True by (simp add: b_def)
    show ?thesis
      unfolding bs powi_succ using f by linarith
  next
    case False
    show ?thesis
    proof (cases "x < 1")
      case False
      with \<open>\<not> 2 \<le> x\<close> show ?thesis by simp
    next
      case True
      define b where "b = binade n (2 * x)"
      have bs: "binade (Suc n) x = b - 1"
        using True False by (simp add: b_def)
      have cancel: "b - 1 + 1 = b" by simp
      show ?thesis
      proof (cases n)
        case 0
        then have "b = 0" by (simp add: b_def)
        moreover from 0 Suc.prems have "1 / 2 \<le> x" by simp
        ultimately show ?thesis
          unfolding bs cancel powi_pred using True by simp
      next
        case (Suc m)
        then have "(2::real) \<le> 2 ^ n" by simp
        with True have "2 * x < 2 ^ n" by linarith
        moreover from Suc.prems have "0 < 2 * x" "1 / 2 ^ n \<le> 2 * x"
          by (simp_all add: field_simps)
        ultimately have "2 powi b \<le> 2 * x \<and> 2 * x < 2 powi (b + 1)"
          unfolding b_def by (intro Suc.IH)
        then have f: "2 powi b \<le> 2 * x" "2 * x < 2 * 2 powi b"
          by (simp_all only: powi_succ)
        show ?thesis
          unfolding bs cancel powi_pred using f by linarith
      qed
    qed
  qed
qed

text \<open>The rounding at some known values: one tenth; the first integers that are not doubles;
  the sum \<^verbatim>\<open>0.1 + 0.2\<close> and the products \<^verbatim>\<open>9.99 * 3\<close> and \<^verbatim>\<open>19.99 * 7\<close>, which
  JavaScript prints as \<^verbatim>\<open>0.30000000000000004\<close>, \<^verbatim>\<open>29.97\<close> and \<^verbatim>\<open>139.92999999999998\<close>;
  the overflow to infinity half a step above the largest double; and a tie between two
  subnormal numbers.\<close>

lemma round_double_known_values:
  "round_double (1 / 10) = Finite (3602879701896397 / 36028797018963968)"
  "round_double (2 ^ 53 + 1) = Finite (2 ^ 53)"
  "round_double (2 ^ 53 + 3) = Finite (2 ^ 53 + 4)"
  "dadd (round_double (1 / 10)) (round_double (2 / 10)) =
     Finite (1351079888211149 / 4503599627370496)"
  "dmul (round_double (999 / 100)) (number_of 3) = Finite (1054475631502295 / 35184372088832)"
  "dmul (round_double (1999 / 100)) (number_of 7) = Finite (4923349186390261 / 35184372088832)"
  by (simp_all add: number_of_def round_double_def round_half_even_def binade_numeral Let_def
        power_int_minus)

lemma round_double_overflow: "round_double (2 ^ 1024 - 2 ^ 970) = PosInf"
  by (simp add: round_double_def round_half_even_def binade_numeral Let_def power_int_minus)

lemma round_double_subnormal_tie: "round_double (3 / 2 ^ 1075) = Finite (1 / 2 ^ 1073)"
  by (simp add: round_double_def round_half_even_def binade_numeral Let_def power_int_minus)

lemma foldl_total_exact:
  "exact_from a ls \<Longrightarrow>
   foldl (\<lambda>total item. dadd total (dmul (price item) (number_of (quantity item))))
     (Finite a) ls =
   Finite (a + (\<Sum>l\<leftarrow>ls. finite_value (price l) * of_int (quantity l)))"
proof (induction ls arbitrary: a)
  case Nil
  then show ?case by simp
next
  case (Cons l ls)
  from Cons.prems obtain p where p: "price l = Finite p"
    by (cases "price l") simp_all
  let ?t = "p * of_int (quantity l)"
  from Cons.prems p have r: "representable (of_int (quantity l))" "representable ?t"
    "representable (a + ?t)" "exact_from (a + ?t) ls"
    by simp_all
  have step: "dadd (Finite a) (dmul (price l) (number_of (quantity l))) = Finite (a + ?t)"
    using r(1,2,3) p by (simp add: number_of_def representable_def)
  show ?case
    using Cons.IH [OF r(4)] step p by (simp add: add.assoc)
qed

lemma find_Some_iff_ex: "(\<exists>y. find p xs = Some y) \<longleftrightarrow> (\<exists>x \<in> set xs. p x)"
  by (induction xs) auto

lemma id_present_iff: "x \<in> set (map item_id xs) \<longleftrightarrow> (\<exists>l \<in> set xs. item_id l = x)"
  by auto

lemma cart_addToCart_present:
  "item_id item \<in> set (map item_id (cart s)) \<Longrightarrow>
   cart (addToCart item s) =
     map (\<lambda>l. if item_id l = item_id item then l\<lparr>quantity := quantity l + 1\<rparr> else l) (cart s)"
  using find_Some_iff_ex [of "\<lambda>c. item_id c = item_id item" "cart s"]
    id_present_iff [of "item_id item" "cart s"]
  by (auto simp: addToCart_def Let_def simp del: set_map split: option.splits)

lemma cart_addToCart_absent:
  "item_id item \<notin> set (map item_id (cart s)) \<Longrightarrow>
   cart (addToCart item s) = cart s @ [spread item 1 [] '''']"
  using find_None_conv [of "\<lambda>c. item_id c = item_id item" "cart s"]
    id_present_iff [of "item_id item" "cart s"]
  by (auto simp: addToCart_def Let_def simp del: set_map split: option.splits)

lemma truncate_spread: "menu_item.truncate (spread item q r t) = item"
  by (simp add: spread_def menu_item.truncate_def)

lemma spread_fields [simp]:
  "item_id (spread item q r t) = item_id item"
  "quantity (spread item q r t) = q"
  "removedIngredients (spread item q r t) = r"
  "specialRequest (spread item q r t) = t"
  by (simp_all add: spread_def)

lemma findIndex_from_None: "findIndex_from p k xs = None \<longleftrightarrow> (\<forall>x \<in> set xs. \<not> p x)"
  by (induction xs arbitrary: k) auto

lemma findIndex_from_Some:
  "findIndex_from p k xs = Some i \<Longrightarrow>
     k \<le> i \<and> i - k < length xs \<and> p (xs ! (i - k)) \<and> (\<forall>j < i - k. \<not> p (xs ! j))"
proof (induction xs arbitrary: k)
  case Nil
  then show ?case by simp
next
  case (Cons x xs)
  show ?case
  proof (cases "p x")
    case True
    with Cons.prems show ?thesis by simp
  next
    case False
    with Cons.prems have "findIndex_from p (Suc k) xs = Some i" by simp
    from Cons.IH [OF this]
    have ih: "Suc k \<le> i" "i - Suc k < length xs" "p (xs ! (i - Suc k))"
      "\<forall>j < i - Suc k. \<not> p (xs ! j)" by auto
    from ih(1) have eq: "i - k = Suc (i - Suc k)" by simp
    have "\<forall>j < i - k. \<not> p ((x # xs) ! j)"
    proof (intro allI impI)
      fix j assume "j < i - k"
      then show "\<not> p ((x # xs) ! j)"
        using False ih(4) eq by (cases j) auto
    qed
    then show ?thesis using ih eq by simp
  qed
qed

lemma findIndex_Some:
  "findIndex p xs = Some i \<Longrightarrow> i < length xs \<and> p (xs ! i) \<and> (\<forall>j < i. \<not> p (xs ! j))"
  using findIndex_from_Some [of p 0 xs i] by (simp add: findIndex_def)

lemma findIndex_None: "findIndex p xs = None \<longleftrightarrow> (\<forall>x \<in> set xs. \<not> p x)"
  by (simp add: findIndex_def findIndex_from_None)

lemma map_index_replace: "map_index (\<lambda>x i. if i = k then v else x) xs = xs[k := v]"
  by (rule nth_equalityI) (auto simp: map_index_def nth_list_update)

lemma cart_customize_present:
  assumes "item_id item \<in> set (map item_id (cart s))"
  shows "\<exists>k < length (cart s).
           item_id (cart s ! k) = item_id item \<and>
           (\<forall>j < k. item_id (cart s ! j) \<noteq> item_id item) \<and>
           cart (customize_and_add item removed request s) =
             (cart s)[k := spread item 1 removed request]"
proof -
  let ?p = "\<lambda>l::cart_line. item_id l = item_id item"
  from assms have "findIndex ?p (cart s) \<noteq> None"
    using id_present_iff [of "item_id item" "cart s"] by (simp add: findIndex_None del: set_map)
  then obtain k where k: "findIndex ?p (cart s) = Some k" by auto
  from findIndex_Some [OF k]
  have "k < length (cart s)" "item_id (cart s ! k) = item_id item"
    "\<forall>j < k. item_id (cart s ! j) \<noteq> item_id item" by auto
  moreover have "cart (customize_and_add item removed request s) =
             (cart s)[k := spread item 1 removed request]"
    using k by (simp add: customize_and_add_def addCustomizedToCart_def Let_def map_index_replace)
  ultimately show ?thesis by blast
qed

lemma cart_customize_absent:
  assumes "item_id item \<notin> set (map item_id (cart s))"
  shows "cart (customize_and_add item removed request s) =
           cart s @ [spread item 1 removed request]"
proof -
  from assms have "findIndex (\<lambda>l::cart_line. item_id l = item_id item) (cart s) = None"
    using id_present_iff [of "item_id item" "cart s"] by (simp add: findIndex_None del: set_map)
  then show ?thesis
    by (simp add: customize_and_add_def addCustomizedToCart_def Let_def)
qed

lemma placeOrder_unauthenticated:
  "\<not> isAuthenticated s \<Longrightarrow>
   placeOrder post_res menu_res s =
     (Returned, s\<lparr>toasts := toasts s @ [Toast_error ''Please login to place an order''],
                  location := ''/login''\<rparr>)"
  by (simp add: placeOrder_def)

lemma placeOrder_empty:
  "isAuthenticated s \<Longrightarrow> cart s = [] \<Longrightarrow>
   placeOrder post_res menu_res s =
     (Returned, s\<lparr>toasts := toasts s @ [Toast_error ''Your cart is empty'']\<rparr>)"
  by (simp add: placeOrder_def)

lemma placeOrder_submitted:
  "isAuthenticated s \<Longrightarrow> cart s \<noteq> [] \<Longrightarrow>
   placeOrder post_res menu_res s =
     (let (thrown, s2) = try_block post_res (s\<lparr>isPlacingOrder := True\<rparr>);
          (c, s3) = (case thrown of
                       None \<Rightarrow> (Returned, s2)
                     | Some err \<Rightarrow> catch_block err menu_res s2)
      in (c, s3\<lparr>isPlacingOrder := False\<rparr>))"
  by (simp add: placeOrder_def)

lemma cart_catch_block: "cart (snd (catch_block err menu_res s)) = cart s"
  by (simp add: catch_block_def Let_def split: error.splits option.splits get_result.splits)

lemma cart_try_block_thrown: "try_block post_res s = (Some err, s') \<Longrightarrow> cart s' = cart s"
  by (auto simp: try_block_def Let_def split: post_result.splits if_splits)

lemma split_slash_no_slash: "CHR ''/'' \<notin> set w \<Longrightarrow> split_slash w = [w]"
  by (induction w) auto

lemma segments_order_path:
  "orderId \<noteq> [] \<Longrightarrow> CHR ''/'' \<notin> set orderId \<Longrightarrow>
   location_segments (''/orders/'' @ orderId) = Some [''orders'', orderId]"
  by (simp add: strip_trailing_def split_slash_no_slash)

lemma order_detail_unrouted:
  assumes "orderId \<noteq> []" and "CHR ''/'' \<notin> set orderId"
  shows "match_route (''/orders/'' @ orderId) = None"
proof -
  define path where "path = ''/orders/'' @ orderId"
  have seg: "location_segments path = Some [''orders'', orderId]"
    unfolding path_def by (rule segments_order_path [OF assms])
  have "match_route path = None"
    by (simp add: match_route_def routes_def path_matches_def seg)
       (simp add: pattern_segments_def strip_trailing_def to_lower_def)
  then show ?thesis by (simp only: path_def)
qed

lemma login_routed: "match_route ''/login'' = Some Login"
  by (simp add: match_route_def routes_def path_matches_def pattern_segments_def
        strip_trailing_def to_lower_def)

lemma placeOrder_success_effects:
  "isAuthenticated s \<Longrightarrow> cart s \<noteq> [] \<Longrightarrow>
   fst (placeOrder (Resolved True orderId message) menu_res s) = Returned \<and>
   cart (snd (placeOrder (Resolved True orderId message) menu_res s)) = [] \<and>
   location (snd (placeOrder (Resolved True orderId message) menu_res s)) = ''/orders/'' @ orderId"
  by (simp add: placeOrder_submitted try_block_def Let_def)

lemma cart_addToCart_cases:
  "cart (addToCart item s) =
     (if item_id item \<in> set (map item_id (cart s))
      then map (\<lambda>l. if item_id l = item_id item then l\<lparr>quantity := quantity l + 1\<rparr> else l)
             (cart s)
      else cart s @ [spread item 1 [] ''''])"
  by (simp add: cart_addToCart_present cart_addToCart_absent del: set_map)

lemma cart_customize_cases:
  "\<exists>k. cart (customize_and_add item removed request s) =
     (if item_id item \<in> set (map item_id (cart s))
      then (cart s)[k := spread item 1 removed request]
      else cart s @ [spread item 1 removed request]) \<and>
     (item_id item \<in> set (map item_id (cart s)) \<longrightarrow>
        k < length (cart s) \<and> item_id (cart s ! k) = item_id item)"
proof (cases "item_id item \<in> set (map item_id (cart s))")
  case True
  from cart_customize_present [OF True, of removed request] True show ?thesis by auto
next
  case False
  from cart_customize_absent [OF False, of removed request] False show ?thesis by auto
qed

lemma quantities_addToCart:
  "\<forall>l \<in> set (cart s). 1 \<le> quantity l \<Longrightarrow> \<forall>l \<in> set (cart (addToCart item s)). 1 \<le> quantity l"
  unfolding cart_addToCart_cases by auto

lemma quantities_customize:
  assumes "\<forall>l \<in> set (cart s). 1 \<le> quantity l"
  shows "\<forall>l \<in> set (cart (customize_and_add item removed request s)). 1 \<le> quantity l"
proof -
  obtain k where k: "cart (customize_and_add item removed request s) =
     (if item_id item \<in> set (map item_id (cart s))
      then (cart s)[k := spread item 1 removed request]
      else cart s @ [spread item 1 removed request])"
    using cart_customize_cases [of item removed request s] by blast
  show ?thesis
  proof
    fix l assume "l \<in> set (cart (customize_and_add item removed request s))"
    then have "l \<in> set (cart s) \<or> l = spread item 1 removed request"
      unfolding k using set_update_subset_insert [of "cart s" k "spread item 1 removed request"]
      by (auto split: if_splits)
    with assms show "1 \<le> quantity l" by auto
  qed
qed

lemma quantities_updateQuantity:
  "\<forall>l \<in> set (cart s). 1 \<le> quantity l \<Longrightarrow>
   \<forall>l \<in> set (cart (updateQuantity itemId newQuantity s)). 1 \<le> quantity l"
  by (auto simp: updateQuantity_def)

lemma quantities_removeFromCart:
  "\<forall>l \<in> set (cart s). 1 \<le> quantity l \<Longrightarrow>
   \<forall>l \<in> set (cart (removeFromCart itemId s)). 1 \<le> quantity l"
  by (simp add: removeFromCart_def)

lemma quantities_apply_op:
  "\<forall>l \<in> set (cart s). 1 \<le> quantity l \<Longrightarrow> \<forall>l \<in> set (cart (apply_op s op)). 1 \<le> quantity l"
proof (cases op)
  case (Add item)
  then show "\<forall>l \<in> set (cart s). 1 \<le> quantity l \<Longrightarrow> ?thesis"
    using quantities_addToCart [of s item] by simp
next
  case (Customize_and_add item removed request)
  then show "\<forall>l \<in> set (cart s). 1 \<le> quantity l \<Longrightarrow> ?thesis"
    using quantities_customize [of s item removed request] by simp
next
  case (Update_quantity itemId newQuantity)
  then show "\<forall>l \<in> set (cart s). 1 \<le> quantity l \<Longrightarrow> ?thesis"
    using quantities_updateQuantity [of s itemId newQuantity] by simp
next
  case (Remove itemId)
  then show "\<forall>l \<in> set (cart s). 1 \<le> quantity l \<Longrightarrow> ?thesis"
    using quantities_removeFromCart [of s itemId] by simp
qed

lemma quantities_run:
  "\<forall>l \<in> set (cart s). 1 \<le> quantity l \<Longrightarrow>
   \<forall>l \<in> set (cart (foldl apply_op s ops)). 1 \<le> quantity l"
proof (induction ops arbitrary: s)
  case Nil
  then show ?case by simp
next
  case (Cons op ops)
  from Cons.prems have "\<forall>l \<in> set (cart (apply_op s op)). 1 \<le> quantity l"
    by (rule quantities_apply_op)
  from Cons.IH [OF this] show ?case by simp
qed

lemma ids_set_quantity:
  "map (item_id \<circ> (\<lambda>l. if item_id l = x then l\<lparr>quantity := f l\<rparr> else l)) xs =
     map item_id xs"
  by (induction xs) auto

lemma ids_addToCart:
  "distinct (map item_id (cart s)) \<Longrightarrow> distinct (map item_id (cart (addToCart item s)))"
  by (cases "item_id item \<in> set (map item_id (cart s))")
     (simp_all add: cart_addToCart_cases ids_set_quantity del: set_map)

lemma ids_customize:
  assumes d: "distinct (map item_id (cart s))"
  shows "distinct (map item_id (cart (customize_and_add item removed request s)))"
proof (cases "item_id item \<in> set (map item_id (cart s))")
  case True
  from cart_customize_present [OF True, of removed request]
  obtain k where k: "k < length (cart s)" "item_id (cart s ! k) = item_id item"
    "cart (customize_and_add item removed request s) =
       (cart s)[k := spread item 1 removed request]" by blast
  have "map item_id ((cart s)[k := spread item 1 removed request]) =
          (map item_id (cart s))[k := item_id item]"
    by (simp add: map_update)
  also have "\<dots> = map item_id (cart s)"
    using k(1,2) by (metis list_update_id nth_map)
  finally show ?thesis using d k(3) by simp
next
  case False
  then show ?thesis using d by (simp add: cart_customize_absent del: set_map)
qed

lemma ids_updateQuantity:
  "distinct (map item_id (cart s)) \<Longrightarrow>
   distinct (map item_id (cart (updateQuantity itemId newQuantity s)))"
  by (simp add: updateQuantity_def ids_set_quantity)

lemma ids_removeFromCart:
  "distinct (map item_id (cart s)) \<Longrightarrow> distinct (map item_id (cart (removeFromCart itemId s)))"
  by (simp add: removeFromCart_def distinct_map_filter)

lemma ids_apply_op:
  "distinct (map item_id (cart s)) \<Longrightarrow> distinct (map item_id (cart (apply_op s op)))"
  by (cases op) (simp_all add: ids_addToCart ids_customize ids_updateQuantity ids_removeFromCart)

lemma ids_run:
  "distinct (map item_id (cart s)) \<Longrightarrow> distinct (map item_id (cart (foldl apply_op s ops)))"
  by (induction ops arbitrary: s) (simp_all add: ids_apply_op)

subsection \<open>The claims\<close>

text \<open>
  \<^bold>\<open>C1.\<close> Adding a menu item to a cart that already holds a line with the item's identity
  keeps the number of lines and raises the quantity of every line of that identity by 1,
  leaving all else as it was; adding it to a cart with no line of that identity appends one
  line that carries the item's fields with quantity 1, no removed ingredients and an empty
  special request. Adding the same item twice to an empty cart gives exactly one line, with
  quantity 2.
\<close>

theorem addToCart_spec:
  "(item_id item \<in> set (map item_id (cart s)) \<longrightarrow>
      length (cart (addToCart item s)) = length (cart s) \<and>
      (\<forall>i < length (cart s).
         cart (addToCart item s) ! i =
           (if item_id (cart s ! i) = item_id item
            then (cart s ! i)\<lparr>quantity := quantity (cart s ! i) + 1\<rparr>
            else cart s ! i))) \<and>
   (item_id item \<notin> set (map item_id (cart s)) \<longrightarrow>
      (\<exists>l. cart (addToCart item s) = cart s @ [l] \<and> menu_item.truncate l = item \<and>
           quantity l = 1 \<and> removedIngredients l = [] \<and> specialRequest l = '''')) \<and>
   (cart s = [] \<longrightarrow>
      (\<exists>l. cart (addToCart item (addToCart item s)) = [l] \<and> menu_item.truncate l = item \<and>
           quantity l = 2 \<and> removedIngredients l = [] \<and> specialRequest l = ''''))"
proof (intro conjI impI)
  assume present: "item_id item \<in> set (map item_id (cart s))"
  show "length (cart (addToCart item s)) = length (cart s)"
    by (simp add: cart_addToCart_present [OF present])
  show "\<forall>i < length (cart s).
         cart (addToCart item s) ! i =
           (if item_id (cart s ! i) = item_id item
            then (cart s ! i)\<lparr>quantity := quantity (cart s ! i) + 1\<rparr>
            else cart s ! i)"
    by (simp add: cart_addToCart_present [OF present])
next
  assume absent: "item_id item \<notin> set (map item_id (cart s))"
  show "\<exists>l. cart (addToCart item s) = cart s @ [l] \<and> menu_item.truncate l = item \<and>
           quantity l = 1 \<and> removedIngredients l = [] \<and> specialRequest l = ''''"
    by (simp add: cart_addToCart_absent [OF absent] truncate_spread)
next
  assume empty: "cart s = []"
  then have one: "cart (addToCart item s) = [spread item 1 [] '''']"
    using cart_addToCart_absent [of item s] by simp
  then have "item_id item \<in> set (map item_id (cart (addToCart item s)))"
    by simp
  then have two: "cart (addToCart item (addToCart item s)) = [(spread item 1 [] '''')\<lparr>quantity := 2\<rparr>]"
    using one by (simp add: cart_addToCart_present)
  show "\<exists>l. cart (addToCart item (addToCart item s)) = [l] \<and> menu_item.truncate l = item \<and>
           quantity l = 2 \<and> removedIngredients l = [] \<and> specialRequest l = ''''"
    unfolding two by (simp add: spread_def menu_item.truncate_def)
qed

theorem addToCart_spec_witness:
  "item_id burger \<in>
     set (map item_id (cart ((initial True Map.empty)\<lparr>cart := [spread burger 3 [] '''']\<rparr>))) \<and>
   cart (addToCart burger ((initial True Map.empty)\<lparr>cart := [spread burger 3 [] '''']\<rparr>)) =
     [spread burger 4 [] ''''] \<and>
   item_id fries \<notin>
     set (map item_id (cart ((initial True Map.empty)\<lparr>cart := [spread burger 3 [] '''']\<rparr>))) \<and>
   cart (addToCart fries ((initial True Map.empty)\<lparr>cart := [spread burger 3 [] '''']\<rparr>)) =
     [spread burger 3 [] '''', spread fries 1 [] ''''] \<and>
   cart (initial True Map.empty) = [] \<and>
   cart (addToCart burger (addToCart burger (initial True Map.empty))) =
     [spread burger 2 [] '''']"
  using addToCart_spec [of burger "(initial True Map.empty)\<lparr>cart := [spread burger 3 [] '''']\<rparr>"]
    addToCart_spec [of fries "(initial True Map.empty)\<lparr>cart := [spread burger 3 [] '''']\<rparr>"]
    addToCart_spec [of burger "initial True Map.empty"]
  by (simp add: addToCart_def initial_def spread_def burger_def fries_def)

text \<open>
  \<^bold>\<open>C2.\<close> Customize-and-add with an item, a list of removed ingredients and a special
  request: when the cart holds a line of the item's identity, the first such line is replaced
  in place by a line carrying the item's fields, quantity 1 and the given customization, and
  the number of lines stays the same; when it holds none, that line is appended.
\<close>

theorem customize_and_add_spec:
  "(item_id item \<in> set (map item_id (cart s)) \<longrightarrow>
      (\<exists>k l. k < length (cart s) \<and> item_id (cart s ! k) = item_id item \<and>
             (\<forall>j < k. item_id (cart s ! j) \<noteq> item_id item) \<and>
             cart (customize_and_add item removed request s) = (cart s)[k := l] \<and>
             menu_item.truncate l = item \<and> quantity l = 1 \<and>
             removedIngredients l = removed \<and> specialRequest l = request) \<and>
      length (cart (customize_and_add item removed request s)) = length (cart s)) \<and>
   (item_id item \<notin> set (map item_id (cart s)) \<longrightarrow>
      (\<exists>l. cart (customize_and_add item removed request s) = cart s @ [l] \<and>
           menu_item.truncate l = item \<and> quantity l = 1 \<and>
           removedIngredients l = removed \<and> specialRequest l = request))"
proof (intro conjI impI)
  assume present: "item_id item \<in> set (map item_id (cart s))"
  from cart_customize_present [OF present, of removed request]
  obtain k where k: "k < length (cart s)" "item_id (cart s ! k) = item_id item"
      "\<forall>j < k. item_id (cart s ! j) \<noteq> item_id item"
      "cart (customize_and_add item removed request s) =
         (cart s)[k := spread item 1 removed request]"
    by blast
  from k show "\<exists>k l. k < length (cart s) \<and> item_id (cart s ! k) = item_id item \<and>
             (\<forall>j < k. item_id (cart s ! j) \<noteq> item_id item) \<and>
             cart (customize_and_add item removed request s) = (cart s)[k := l] \<and>
             menu_item.truncate l = item \<and> quantity l = 1 \<and>
             removedIngredients l = removed \<and> specialRequest l = request"
    using truncate_spread [of item 1 removed request] spread_fields [of item 1 removed request]
    by blast
  from k(4) show "length (cart (customize_and_add item removed request s)) = length (cart s)"
    by simp
next
  assume absent: "item_id item \<notin> set (map item_id (cart s))"
  show "\<exists>l. cart (customize_and_add item removed request s) = cart s @ [l] \<and>
           menu_item.truncate l = item \<and> quantity l = 1 \<and>
           removedIngredients l = removed \<and> specialRequest l = request"
    by (simp add: cart_customize_absent [OF absent] truncate_spread)
qed

theorem customize_and_add_spec_witness:
  "item_id burger \<in>
     set (map item_id (cart ((initial True Map.empty)\<lparr>cart := [spread fries 2 [] '''', spread burger 3 [] '''']\<rparr>))) \<and>
   cart (customize_and_add burger [''onion''] ''no salt''
          ((initial True Map.empty)\<lparr>cart := [spread fries 2 [] '''', spread burger 3 [] '''']\<rparr>)) =
     [spread fries 2 [] '''', spread burger 1 [''onion''] ''no salt''] \<and>
   item_id burger \<notin>
     set (map item_id (cart ((initial True Map.empty)\<lparr>cart := [spread fries 2 [] '''']\<rparr>))) \<and>
   cart (customize_and_add burger [''onion''] ''no salt''
          ((initial True Map.empty)\<lparr>cart := [spread fries 2 [] '''']\<rparr>)) =
     [spread fries 2 [] '''', spread burger 1 [''onion''] ''no salt'']"
  using customize_and_add_spec [of burger
          "(initial True Map.empty)\<lparr>cart := [spread fries 2 [] '''', spread burger 3 [] '''']\<rparr>"
          "[''onion'']" "''no salt''"]
    customize_and_add_spec [of burger "(initial True Map.empty)\<lparr>cart := [spread fries 2 [] '''']\<rparr>"
          "[''onion'']" "''no salt''"]
  by (simp add: customize_and_add_def addCustomizedToCart_def findIndex_def map_index_def
        initial_def spread_def burger_def fries_def upt_rec)

text \<open>
  \<^bold>\<open>C3.\<close> Update-quantity leaves the whole state, and so the cart, unchanged when the new
  quantity is below 1. Otherwise only the cart changes: it keeps its length, each line whose
  identity equals the given one gets the new quantity with every other field kept, and each
  other line stays as it was.
\<close>

theorem updateQuantity_spec:
  "(newQuantity < 1 \<longrightarrow> updateQuantity itemId newQuantity s = s) \<and>
   (\<not> newQuantity < 1 \<longrightarrow>
      updateQuantity itemId newQuantity s = s\<lparr>cart := cart (updateQuantity itemId newQuantity s)\<rparr> \<and>
      length (cart (updateQuantity itemId newQuantity s)) = length (cart s) \<and>
      (\<forall>i < length (cart s).
         cart (updateQuantity itemId newQuantity s) ! i =
           (if item_id (cart s ! i) = itemId
            then (cart s ! i)\<lparr>quantity := newQuantity\<rparr>
            else cart s ! i)))"
  by (simp add: updateQuantity_def)

theorem updateQuantity_spec_witness:
  "(0::int) < 1 \<and>
   updateQuantity ''m1'' 0 ((initial True Map.empty)\<lparr>cart := [spread fries 2 [] '''', spread burger 3 [] '''']\<rparr>) =
     (initial True Map.empty)\<lparr>cart := [spread fries 2 [] '''', spread burger 3 [] '''']\<rparr> \<and>
   \<not> (5::int) < 1 \<and>
   cart (updateQuantity ''m1'' 5
          ((initial True Map.empty)\<lparr>cart := [spread fries 2 [] '''', spread burger 3 [''onion''] ''rare'']\<rparr>)) =
     [spread fries 2 [] '''', spread burger 5 [''onion''] ''rare'']"
  using updateQuantity_spec [of 0 "''m1''"
          "(initial True Map.empty)\<lparr>cart := [spread fries 2 [] '''', spread burger 3 [] '''']\<rparr>"]
    updateQuantity_spec [of 5 "''m1''"
          "(initial True Map.empty)\<lparr>cart := [spread fries 2 [] '''', spread burger 3 [''onion''] ''rare'']\<rparr>"]
  by (simp add: updateQuantity_def initial_def spread_def burger_def fries_def)

text \<open>
  \<^bold>\<open>C4.\<close> The total is the sum of price times quantity over the cart lines as JavaScript
  computes it, in double-precision arithmetic from left to right: it is 0 for the empty cart,
  and the total of a cart with one more line at its end is the rounded sum of the total so
  far and the rounded product of that line's price and quantity. Whenever no rounding takes
  place, that is, the prices are finite and the quantities, products and running sums are
  all representable, the total is the exact sum of price times quantity.
\<close>

theorem calculateTotal_rounded:
  "calculateTotal (s\<lparr>cart := []\<rparr>) = Finite 0 \<and>
   calculateTotal (s\<lparr>cart := ls @ [l]\<rparr>) =
     dadd (calculateTotal (s\<lparr>cart := ls\<rparr>)) (dmul (price l) (number_of (quantity l))) \<and>
   (cart s = [] \<longrightarrow> calculateTotal s = Finite 0) \<and>
   (exact_from 0 (cart s) \<longrightarrow>
      calculateTotal s = Finite (\<Sum>l\<leftarrow>cart s. finite_value (price l) * of_int (quantity l)))"
proof (intro conjI impI)
  show "calculateTotal (s\<lparr>cart := []\<rparr>) = Finite 0"
    by (simp add: calculateTotal_def)
  show "calculateTotal (s\<lparr>cart := ls @ [l]\<rparr>) =
     dadd (calculateTotal (s\<lparr>cart := ls\<rparr>)) (dmul (price l) (number_of (quantity l)))"
    by (simp add: calculateTotal_def)
next
  assume "cart s = []"
  then show "calculateTotal s = Finite 0"
    by (simp add: calculateTotal_def)
next
  assume "exact_from 0 (cart s)"
  from foldl_total_exact [OF this] show
    "calculateTotal s = Finite (\<Sum>l\<leftarrow>cart s. finite_value (price l) * of_int (quantity l))"
    by (simp add: calculateTotal_def)
qed

theorem calculateTotal_rounded_witness:
  "cart (initial True Map.empty) = [] \<and> calculateTotal (initial True Map.empty) = Finite 0 \<and>
   exact_from 0
     (cart ((initial True Map.empty)\<lparr>cart := [spread fries 2 [] '''', spread burger 3 [] '''']\<rparr>)) \<and>
   calculateTotal
     ((initial True Map.empty)\<lparr>cart := [spread fries 2 [] '''', spread burger 3 [] '''']\<rparr>) =
     Finite 20 \<and>
   calculateTotal ((initial True Map.empty)\<lparr>cart := [] @ [spread tea 3 [] '''']\<rparr>) =
     dadd (Finite 0) (dmul (price tea) (number_of 3))"
  using calculateTotal_rounded [of "initial True Map.empty" "[]" "spread tea 3 [] ''''"]
    calculateTotal_rounded
      [of "(initial True Map.empty)\<lparr>cart := [spread fries 2 [] '''', spread burger 3 [] '''']\<rparr>"
        "[]" "spread tea 3 [] ''''"]
  by (simp add: initial_def spread_def burger_def fries_def tea_def representable_def
        round_double_def round_half_even_def binade_numeral Let_def power_int_minus)

theorem calculateTotal_exact_sum_counterexample:
  "round_double (1 / 10) = price tea \<and>
   calculateTotal ((initial True Map.empty)\<lparr>cart := [spread tea 3 [] '''']\<rparr>) =
     Finite (5404319552844596 / 18014398509481984) \<and>
   calculateTotal ((initial True Map.empty)\<lparr>cart := [spread tea 3 [] '''']\<rparr>) \<noteq>
     Finite (3602879701896397 / 36028797018963968 * 3)"
  by (simp add: calculateTotal_def number_of_def initial_def spread_def tea_def
        round_double_def round_half_even_def binade_numeral Let_def power_int_minus)

text \<open>
  \<^bold>\<open>C5.\<close> When the user is not authenticated or the cart is empty, placing an order
  returns without sending any request (so no \<^verbatim>\<open>POST /orders\<close>) and leaves the cart as it
  was, whatever the API would have answered.
\<close>

theorem placeOrder_local_failure:
  "\<not> isAuthenticated s \<or> cart s = [] \<Longrightarrow>
   fst (placeOrder post_res menu_res s) = Returned \<and>
   requests (snd (placeOrder post_res menu_res s)) = requests s \<and>
   cart (snd (placeOrder post_res menu_res s)) = cart s"
  by (cases "isAuthenticated s") (auto simp: placeOrder_unauthenticated placeOrder_empty)

theorem placeOrder_local_failure_witness:
  "\<not> isAuthenticated ((initial False Map.empty)\<lparr>cart := [spread burger 3 [] '''']\<rparr>) \<and>
   requests (snd (placeOrder (Resolved True ''o1'' None) Get_failed
                    ((initial False Map.empty)\<lparr>cart := [spread burger 3 [] '''']\<rparr>))) = [] \<and>
   cart (snd (placeOrder (Resolved True ''o1'' None) Get_failed
                    ((initial False Map.empty)\<lparr>cart := [spread burger 3 [] '''']\<rparr>))) =
     [spread burger 3 [] ''''] \<and>
   cart (initial True [''token'' \<mapsto> ''t'']) = [] \<and>
   requests (snd (placeOrder (Resolved True ''o1'' None) Get_failed
                    (initial True [''token'' \<mapsto> ''t'']))) = [] \<and>
   cart (snd (placeOrder (Resolved True ''o1'' None) Get_failed
                    (initial True [''token'' \<mapsto> ''t'']))) = []"
  using placeOrder_local_failure [of "(initial False Map.empty)\<lparr>cart := [spread burger 3 [] '''']\<rparr>"
          "Resolved True ''o1'' None" Get_failed]
    placeOrder_local_failure [of "initial True [''token'' \<mapsto> ''t'']"
          "Resolved True ''o1'' None" Get_failed]
  by (simp add: initial_def)

text \<open>
  \<^bold>\<open>C6.\<close> For an authenticated user with a non-empty cart, a response that indicates
  success empties the cart and navigates to the location \<^verbatim>\<open>/orders/<orderId>\<close>. The route
  table has no route for such a location, so no order-detail view is shown there. Here the
  handler is evaluated for a cart of three burgers and a response with the order identifier
  \<^verbatim>\<open>665f1c2ab7e4d90012a3c4ef\<close>: it returns, the cart is empty, the location is
  \<^verbatim>\<open>/orders/665f1c2ab7e4d90012a3c4ef\<close>, and no route matches it.
\<close>

theorem placeOrder_success_unrouted:
  "fst (placeOrder (Resolved True ''665f1c2ab7e4d90012a3c4ef'' None) Get_failed
         ((initial True [''token'' \<mapsto> ''t''])\<lparr>cart := [spread burger 3 [] '''']\<rparr>)) = Returned \<and>
   cart (snd (placeOrder (Resolved True ''665f1c2ab7e4d90012a3c4ef'' None) Get_failed
               ((initial True [''token'' \<mapsto> ''t''])\<lparr>cart := [spread burger 3 [] '''']\<rparr>))) = [] \<and>
   location (snd (placeOrder (Resolved True ''665f1c2ab7e4d90012a3c4ef'' None) Get_failed
               ((initial True [''token'' \<mapsto> ''t''])\<lparr>cart := [spread burger 3 [] '''']\<rparr>))) =
     ''/orders/665f1c2ab7e4d90012a3c4ef'' \<and>
   match_route (location (snd (placeOrder (Resolved True ''665f1c2ab7e4d90012a3c4ef'' None) Get_failed
               ((initial True [''token'' \<mapsto> ''t''])\<lparr>cart := [spread burger 3 [] '''']\<rparr>)))) = None"
proof -
  let ?s = "(initial True [''token'' \<mapsto> ''t''])\<lparr>cart := [spread burger 3 [] '''']\<rparr>"
  have "isAuthenticated ?s" and "cart ?s \<noteq> []"
    by (simp_all add: initial_def)
  from placeOrder_success_effects [OF this, of "''665f1c2ab7e4d90012a3c4ef''" None Get_failed]
    order_detail_unrouted [of "''665f1c2ab7e4d90012a3c4ef''"]
  show ?thesis by simp
qed

text \<open>
  \<^bold>\<open>C7.\<close> For an authenticated user with a non-empty cart, a rejection with HTTP
  status 401 removes the entry \<^verbatim>\<open>token\<close> from local storage (and nothing else from it)
  and navigates to \<^verbatim>\<open>/login\<close>, where the router shows the login view.
\<close>

theorem placeOrder_401:
  "isAuthenticated s \<Longrightarrow> cart s \<noteq> [] \<Longrightarrow>
   localStorage (snd (placeOrder (Rejected (Http_error 401 message)) menu_res s)) =
     (localStorage s)(''token'' := None) \<and>
   localStorage (snd (placeOrder (Rejected (Http_error 401 message)) menu_res s)) ''token'' = None \<and>
   location (snd (placeOrder (Rejected (Http_error 401 message)) menu_res s)) = ''/login'' \<and>
   match_route (location (snd (placeOrder (Rejected (Http_error 401 message)) menu_res s))) =
     Some Login"
  by (simp add: placeOrder_submitted try_block_def catch_block_def Let_def login_routed)

theorem placeOrder_401_witness:
  "isAuthenticated ((initial True [''token'' \<mapsto> ''t''])\<lparr>cart := [spread burger 3 [] '''']\<rparr>) \<and>
   cart ((initial True [''token'' \<mapsto> ''t''])\<lparr>cart := [spread burger 3 [] '''']\<rparr>) \<noteq> [] \<and>
   localStorage ((initial True [''token'' \<mapsto> ''t''])\<lparr>cart := [spread burger 3 [] '''']\<rparr>) ''token'' = Some ''t'' \<and>
   localStorage (snd (placeOrder (Rejected (Http_error 401 None)) Get_failed
               ((initial True [''token'' \<mapsto> ''t''])\<lparr>cart := [spread burger 3 [] '''']\<rparr>))) ''token'' = None \<and>
   location (snd (placeOrder (Rejected (Http_error 401 None)) Get_failed
               ((initial True [''token'' \<mapsto> ''t''])\<lparr>cart := [spread burger 3 [] '''']\<rparr>))) = ''/login'' \<and>
   match_route (location (snd (placeOrder (Rejected (Http_error 401 None)) Get_failed
               ((initial True [''token'' \<mapsto> ''t''])\<lparr>cart := [spread burger 3 [] '''']\<rparr>)))) = Some Login"
  using placeOrder_401 [of "(initial True [''token'' \<mapsto> ''t''])\<lparr>cart := [spread burger 3 [] '''']\<rparr>"
          None Get_failed]
  by (simp add: initial_def login_routed)

text \<open>
  \<^bold>\<open>C8.\<close> For an authenticated user with a non-empty cart, the cart after placing an
  order is empty when the response indicates success, and in every other case (a rejection
  with any status or with no response at all, or a response without success) it is the cart
  from before.
\<close>

theorem placeOrder_cart_atomic:
  "isAuthenticated s \<Longrightarrow> cart s \<noteq> [] \<Longrightarrow>
   cart (snd (placeOrder post_res menu_res s)) =
     (if (case post_res of Resolved success orderId message \<Rightarrow> success | Rejected err \<Rightarrow> False)
      then [] else cart s)"
proof -
  assume a: "isAuthenticated s" "cart s \<noteq> []"
  obtain thrown s2 where t: "try_block post_res (s\<lparr>isPlacingOrder := True\<rparr>) = (thrown, s2)"
    by (cases "try_block post_res (s\<lparr>isPlacingOrder := True\<rparr>)")
  show ?thesis
  proof (cases thrown)
    case None
    with t have "(case post_res of Resolved success orderId message \<Rightarrow> success | Rejected err \<Rightarrow> False)"
      and "cart s2 = []"
      by (auto simp: try_block_def Let_def split: post_result.splits if_splits)
    with a t None show ?thesis by (simp add: placeOrder_submitted)
  next
    case (Some err)
    with t have "\<not> (case post_res of Resolved success orderId message \<Rightarrow> success | Rejected err \<Rightarrow> False)"
      by (auto simp: try_block_def Let_def split: post_result.splits if_splits)
    moreover from t Some have "cart s2 = cart s"
      using cart_try_block_thrown [of post_res "s\<lparr>isPlacingOrder := True\<rparr>" err s2] by simp
    moreover have "cart (snd (catch_block err menu_res s2)) = cart s2"
      by (rule cart_catch_block)
    ultimately show ?thesis using a t Some
      by (auto simp: placeOrder_submitted split: prod.splits)
  qed
qed

theorem placeOrder_cart_atomic_witness:
  "isAuthenticated ((initial True [''token'' \<mapsto> ''t''])\<lparr>cart := [spread burger 3 [] '''']\<rparr>) \<and>
   cart ((initial True [''token'' \<mapsto> ''t''])\<lparr>cart := [spread burger 3 [] '''']\<rparr>) \<noteq> [] \<and>
   cart (snd (placeOrder (Rejected (Http_error 400 (Some ''Item 'Burger' is unavailable''))) Get_failed
               ((initial True [''token'' \<mapsto> ''t''])\<lparr>cart := [spread burger 3 [] '''']\<rparr>))) =
     [spread burger 3 [] ''''] \<and>
   cart (snd (placeOrder (Rejected (Http_error 404 None)) Get_failed
               ((initial True [''token'' \<mapsto> ''t''])\<lparr>cart := [spread burger 3 [] '''']\<rparr>))) =
     [spread burger 3 [] ''''] \<and>
   cart (snd (placeOrder (Resolved False [] None) Get_failed
               ((initial True [''token'' \<mapsto> ''t''])\<lparr>cart := [spread burger 3 [] '''']\<rparr>))) =
     [spread burger 3 [] ''''] \<and>
   cart (snd (placeOrder (Resolved True ''o1'' None) Get_failed
               ((initial True [''token'' \<mapsto> ''t''])\<lparr>cart := [spread burger 3 [] '''']\<rparr>))) = []"
  using placeOrder_cart_atomic [of "(initial True [''token'' \<mapsto> ''t''])\<lparr>cart := [spread burger 3 [] '''']\<rparr>"
          "Rejected (Http_error 400 (Some ''Item 'Burger' is unavailable''))" Get_failed]
    placeOrder_cart_atomic [of "(initial True [''token'' \<mapsto> ''t''])\<lparr>cart := [spread burger 3 [] '''']\<rparr>"
          "Rejected (Http_error 404 None)" Get_failed]
    placeOrder_cart_atomic [of "(initial True [''token'' \<mapsto> ''t''])\<lparr>cart := [spread burger 3 [] '''']\<rparr>"
          "Resolved False [] None" Get_failed]
    placeOrder_cart_atomic [of "(initial True [''token'' \<mapsto> ''t''])\<lparr>cart := [spread burger 3 [] '''']\<rparr>"
          "Resolved True ''o1'' None" Get_failed]
  by (simp add: initial_def)

text \<open>
  \<^bold>\<open>C9.\<close> Every cart line has a quantity of at least 1: each of the four cart operations
  (add, customize-and-add, update-quantity, remove) keeps this true, and so it holds after
  any sequence of them that starts from an empty cart.
\<close>

theorem quantity_invariant:
  "((\<forall>l \<in> set (cart s). 1 \<le> quantity l) \<longrightarrow>
      (\<forall>l \<in> set (cart (apply_op s op)). 1 \<le> quantity l)) \<and>
   (cart s0 = [] \<longrightarrow> (\<forall>l \<in> set (cart (foldl apply_op s0 ops)). 1 \<le> quantity l))"
proof (intro conjI impI)
  assume "\<forall>l \<in> set (cart s). 1 \<le> quantity l"
  then show "\<forall>l \<in> set (cart (apply_op s op)). 1 \<le> quantity l"
    by (rule quantities_apply_op)
next
  assume "cart s0 = []"
  then have "\<forall>l \<in> set (cart s0). 1 \<le> quantity l" by simp
  then show "\<forall>l \<in> set (cart (foldl apply_op s0 ops)). 1 \<le> quantity l"
    by (rule quantities_run)
qed

theorem quantity_invariant_witness:
  "list_all (\<lambda>l. 1 \<le> quantity l)
     (cart ((initial True Map.empty)\<lparr>cart := [spread burger 1 [] '''']\<rparr>)) \<and>
   list_all (\<lambda>l. 1 \<le> quantity l)
     (cart (apply_op ((initial True Map.empty)\<lparr>cart := [spread burger 1 [] '''']\<rparr>)
              (Update_quantity ''m1'' 0))) \<and>
   cart (initial True Map.empty) = [] \<and>
   list_all (\<lambda>l. 1 \<le> quantity l)
     (cart (foldl apply_op (initial True Map.empty)
        [Add burger, Add burger, Add fries, Update_quantity ''m2'' 0,
         Customize_and_add burger [''onion''] ''no salt'', Update_quantity ''m2'' 4,
         Remove ''m1''])) \<and>
   cart (foldl apply_op (initial True Map.empty)
        [Add burger, Add burger, Add fries, Update_quantity ''m2'' 0,
         Customize_and_add burger [''onion''] ''no salt'', Update_quantity ''m2'' 4]) =
     [spread burger 1 [''onion''] ''no salt'', spread fries 4 [] '''']"
  using quantity_invariant [of "(initial True Map.empty)\<lparr>cart := [spread burger 1 [] '''']\<rparr>"
          "Update_quantity ''m1'' 0" "initial True Map.empty"
          "[Add burger, Add burger, Add fries, Update_quantity ''m2'' 0,
            Customize_and_add burger [''onion''] ''no salt'', Update_quantity ''m2'' 4,
            Remove ''m1'']"]
  by (simp add: list_all_iff addToCart_def customize_and_add_def addCustomizedToCart_def
        updateQuantity_def removeFromCart_def findIndex_def map_index_def upt_rec
        initial_def spread_def burger_def fries_def)

text \<open>
  \<^bold>\<open>C10.\<close> No two cart lines share an identity: each of the four cart operations keeps
  the identities of the lines pairwise distinct, and so they are distinct after any sequence
  of operations that starts from an empty cart.
\<close>

theorem identity_invariant:
  "(distinct (map item_id (cart s)) \<longrightarrow> distinct (map item_id (cart (apply_op s op)))) \<and>
   (cart s0 = [] \<longrightarrow> distinct (map item_id (cart (foldl apply_op s0 ops))))"
proof (intro conjI impI)
  assume "distinct (map item_id (cart s))"
  then show "distinct (map item_id (cart (apply_op s op)))" by (rule ids_apply_op)
next
  assume "cart s0 = []"
  then have "distinct (map item_id (cart s0))" by simp
  then show "distinct (map item_id (cart (foldl apply_op s0 ops)))" by (rule ids_run)
qed

theorem identity_invariant_witness:
  "distinct (map item_id (cart ((initial True Map.empty)\<lparr>cart := [spread burger 1 [] '''']\<rparr>))) \<and>
   distinct (map item_id
     (cart (apply_op ((initial True Map.empty)\<lparr>cart := [spread burger 1 [] '''']\<rparr>)
              (Add burger)))) \<and>
   cart (initial True Map.empty) = [] \<and>
   distinct (map item_id
     (cart (foldl apply_op (initial True Map.empty)
        [Add burger, Add fries, Add burger,
         Customize_and_add fries [] ''extra salt'', Update_quantity ''m1'' 7,
         Remove ''m3'']))) \<and>
   map item_id
     (cart (foldl apply_op (initial True Map.empty)
        [Add burger, Add fries, Add burger,
         Customize_and_add fries [] ''extra salt'', Update_quantity ''m1'' 7,
         Remove ''m3''])) = [''m1'', ''m2'']"
  using identity_invariant [of "(initial True Map.empty)\<lparr>cart := [spread burger 1 [] '''']\<rparr>"
          "Add burger" "initial True Map.empty"
          "[Add burger, Add fries, Add burger,
            Customize_and_add fries [] ''extra salt'', Update_quantity ''m1'' 7,
            Remove ''m3'']"]
  by (simp add: addToCart_def customize_and_add_def addCustomizedToCart_def
        updateQuantity_def removeFromCart_def findIndex_def map_index_def upt_rec
        initial_def spread_def burger_def fries_def)

end
